theory Spec2Isabelle
  imports Main
begin

section \<open>Python values shared by the service and the deployment script\<close>

text \<open>
  Exceptions are values. Every constructor stands for a subclass of Python's
  \<open>Exception\<close> and carries the message that \<open>str(e)\<close> returns. \<open>SystemExit\<close>, which
  \<open>exit(1)\<close> raises, is not an \<open>Exception\<close> and is modelled apart (see \<open>outcome\<close> below).
\<close>

datatype exn =
    Exception string
  | ValueError string
  | OverflowError string
  | PrepareTransactionException string

fun str_exn :: "exn \<Rightarrow> string" where
  "str_exn (Exception m) = m"
| "str_exn (ValueError m) = m"
| "str_exn (OverflowError m) = m"
| "str_exn (PrepareTransactionException m) = m"

datatype pyval = PyNone | Bool bool | Str string

text \<open>
  A dict literal is the list of its items in the order written; \<open>map_of d k\<close> is \<open>d.get(k)\<close>.
\<close>

type_synonym dict = "(string \<times> pyval) list"

record Keypair =
  public_key :: string

record Account =
  account_id :: string
  sequence :: nat

text \<open>Truthiness of an \<open>Optional[str]\<close>: \<open>None\<close> and the empty string are falsy.\<close>

fun truthy :: "string option \<Rightarrow> bool" where
  "truthy None = False"
| "truthy (Some s) = (s \<noteq> [])"

section \<open>Python's float arithmetic on amounts\<close>

text \<open>
  \<open>int(float(amount) * 10_000_000)\<close> is evaluated in IEEE 754 binary64 with
  round-to-nearest, ties-to-even. A finite double is kept as an integer mantissa and a binary
  exponent, \<open>Finite m e\<close> standing for \<open>m * 2 ^ e\<close>, so that all arithmetic is exact integer
  arithmetic. A character of a \<open>str\<close> is a code point below 256.
\<close>

datatype pyfloat = Finite int int | Infinity bool | NaN

function bit_length :: "int \<Rightarrow> int" where
  "bit_length n = (if n \<le> 0 then 0 else 1 + bit_length (n div 2))"
  by pat_completeness auto
termination
  by (relation "measure nat") auto

declare bit_length.simps [simp del]

text \<open>\<open>shl x k\<close> is \<open>x * 2 ^ k\<close> for \<open>k \<ge> 0\<close> and \<open>x\<close> itself for \<open>k < 0\<close>.\<close>

definition shl :: "int \<Rightarrow> int \<Rightarrow> int" where
  "shl x k = x * 2 ^ nat k"

text \<open>\<open>floor_log2 p q\<close> is the integer part of the binary logarithm of \<open>p / q\<close>, for \<open>p, q > 0\<close>.\<close>

definition floor_log2 :: "int \<Rightarrow> int \<Rightarrow> int" where
  "floor_log2 p q =
     (let d = bit_length p - bit_length q
      in if shl q d \<le> shl p (- d) then d else d - 1)"

text \<open>
  The double nearest to \<open>p / q\<close> (\<open>p \<ge> 0\<close>, \<open>q > 0\<close>): 53 significant bits, exponent
  not below that of the subnormals, ties to the even mantissa; \<open>None\<close> when the rounded value
  is beyond the largest finite double.
\<close>

definition round_to_double :: "int \<Rightarrow> int \<Rightarrow> (int \<times> int) option" where
  "round_to_double p q =
     (if p = 0 then Some (0, 0)
      else
        let e = max (floor_log2 p q - 52) (- 1074);
            num = shl p (- e);
            den = shl q e;
            m0 = num div den;
            r = num mod den;
            m = (if 2 * r < den then m0
                 else if den < 2 * r then m0 + 1
                 else if even m0 then m0 else m0 + 1)
        in if 1024 < bit_length m + e then None else Some (m, e))"

definition make_float :: "bool \<Rightarrow> int \<Rightarrow> int \<Rightarrow> pyfloat" where
  "make_float neg p q =
     (case round_to_double p q of
        None \<Rightarrow> Infinity neg
      | Some (m, e) \<Rightarrow> Finite (if neg then - m else m) e)"

subsection \<open>\<open>float(str)\<close>\<close>

text \<open>
  Two notions of whitespace. \<open>str.strip()\<close> removes the characters for which \<open>str.isspace\<close>
  holds. \<open>float\<close> removes less: the separators \<open>0x1C\<close> to \<open>0x1F\<close> stay and make the
  conversion fail.
\<close>

definition is_space :: "char \<Rightarrow> bool" where
  "is_space c = ((of_char c :: nat) \<in> {9, 10, 11, 12, 13, 28, 29, 30, 31, 32, 133, 160})"

definition is_float_space :: "char \<Rightarrow> bool" where
  "is_float_space c = ((of_char c :: nat) \<in> {9, 10, 11, 12, 13, 32, 133, 160})"

definition is_digit :: "char \<Rightarrow> bool" where
  "is_digit c = (48 \<le> (of_char c :: nat) \<and> (of_char c :: nat) \<le> 57)"

definition lower :: "char \<Rightarrow> char" where
  "lower c = (if 65 \<le> (of_char c :: nat) \<and> (of_char c :: nat) \<le> 90
              then char_of ((of_char c :: nat) + 32) else c)"

definition strip :: "string \<Rightarrow> string" where
  "strip s = rev (dropWhile is_space (rev (dropWhile is_space s)))"

definition float_strip :: "string \<Rightarrow> string" where
  "float_strip s = rev (dropWhile is_float_space (rev (dropWhile is_float_space s)))"

text \<open>
  \<open>repr(s)\<close> of a \<open>str\<close>: in double quotes when the string holds a single quote and no
  double quote, in single quotes otherwise. The quote in use and the backslash are escaped
  with a backslash; tab, line feed and carriage return are written as a backslash and the
  letter \<open>t\<close>, \<open>n\<close> or \<open>r\<close>; any other character that is not printable is written as a
  backslash, \<open>x\<close> and two hexadecimal digits.
\<close>

definition printable :: "char \<Rightarrow> bool" where
  "printable c =
     (32 \<le> (of_char c :: nat) \<and> (of_char c :: nat) < 127
      \<or> 161 \<le> (of_char c :: nat) \<and> (of_char c :: nat) \<noteq> 173)"

definition hex_digit :: "nat \<Rightarrow> char" where
  "hex_digit n = ''0123456789abcdef'' ! (n mod 16)"

definition repr_char :: "char \<Rightarrow> char \<Rightarrow> string" where
  "repr_char quote c =
     (if c = quote \<or> c = CHR 0x5C then [CHR 0x5C, c]
      else if c = CHR 0x09 then [CHR 0x5C, CHR ''t'']
      else if c = CHR 0x0A then [CHR 0x5C, CHR ''n'']
      else if c = CHR 0x0D then [CHR 0x5C, CHR ''r'']
      else if printable c then [c]
      else [CHR 0x5C, CHR ''x'', hex_digit ((of_char c :: nat) div 16),
            hex_digit ((of_char c :: nat) mod 16)])"

definition repr :: "string \<Rightarrow> string" where
  "repr s =
     (let quote = (if CHR 0x27 \<in> set s \<and> CHR 0x22 \<notin> set s then CHR 0x22 else CHR 0x27)
      in [quote] @ concat (map (repr_char quote) s) @ [quote])"

text \<open>
  Underscores are accepted between two digits only and are then dropped; the first argument
  is the previous character.
\<close>

fun drop_underscores :: "char option \<Rightarrow> string \<Rightarrow> string option" where
  "drop_underscores prev [] = Some []"
| "drop_underscores prev (c # cs) =
     (if c = CHR ''_'' then
        (case (prev, cs) of
           (Some p, n # _) \<Rightarrow>
             if is_digit p \<and> is_digit n then drop_underscores (Some c) cs else None
         | _ \<Rightarrow> None)
      else map_option ((#) c) (drop_underscores (Some c) cs))"

definition digits_val :: "string \<Rightarrow> int" where
  "digits_val ds = foldl (\<lambda>a c. 10 * a + ((of_char c :: int) - 48)) 0 ds"

definition parse_sign :: "string \<Rightarrow> bool \<times> string" where
  "parse_sign s =
     (case s of
        [] \<Rightarrow> (False, s)
      | c # r \<Rightarrow> if c = CHR ''-'' then (True, r)
                 else if c = CHR ''+'' then (False, r) else (False, s))"

definition parse_exponent :: "string \<Rightarrow> int option" where
  "parse_exponent r =
     (case r of
        [] \<Rightarrow> Some 0
      | c # r' \<Rightarrow>
          if c = CHR ''e'' \<or> c = CHR ''E'' then
            (let (neg, ds) = parse_sign r'
             in if ds \<noteq> [] \<and> list_all is_digit ds
                then Some (if neg then - digits_val ds else digits_val ds)
                else None)
          else None)"

text \<open>A parsed literal: \<open>Number neg c e\<close> is \<open>\<plusminus> c * 10 ^ e\<close>.\<close>

datatype literal = Number bool int int | InfLit bool | NanLit

definition parse_float_literal :: "string \<Rightarrow> literal option" where
  "parse_float_literal s =
     (let (neg, r) = parse_sign s; low = map lower r
      in if low = ''inf'' \<or> low = ''infinity'' then Some (InfLit neg)
         else if low = ''nan'' then Some NanLit
         else
           let ip = takeWhile is_digit r;
               r1 = dropWhile is_digit r;
               (fp, r2) = (case r1 of
                             [] \<Rightarrow> ([], r1)
                           | c # t \<Rightarrow> if c = CHR ''.''
                                      then (takeWhile is_digit t, dropWhile is_digit t)
                                      else ([], r1))
           in if ip = [] \<and> fp = [] then None
              else (case parse_exponent r2 of
                      None \<Rightarrow> None
                    | Some ex \<Rightarrow> Some (Number neg (digits_val (ip @ fp)) (ex - int (length fp)))))"

definition float_of_literal :: "literal \<Rightarrow> pyfloat" where
  "float_of_literal l =
     (case l of
        InfLit neg \<Rightarrow> Infinity neg
      | NanLit \<Rightarrow> NaN
      | Number neg c e \<Rightarrow>
          if 0 \<le> e then make_float neg (c * 10 ^ nat e) 1
          else make_float neg c (10 ^ nat (- e)))"

text \<open>\<open>float(s)\<close>; the message of the \<open>ValueError\<close> ends with \<open>repr(s)\<close>.\<close>

definition float :: "string \<Rightarrow> exn + pyfloat" where
  "float s =
     (case Option.bind (drop_underscores None (float_strip s)) parse_float_literal of
        None \<Rightarrow> Inl (ValueError (''could not convert string to float: '' @ repr s))
      | Some l \<Rightarrow> Inr (float_of_literal l))"

subsection \<open>\<open>x * 10_000_000\<close> and \<open>int(x)\<close>\<close>

text \<open>
  \<open>float_mul_int x k\<close> is \<open>x * k\<close> for an integer \<open>0 < k < 2 ^ 53\<close>: the integer operand is
  converted to a double first, exactly, and the exact product is rounded once.
\<close>

definition float_mul_int :: "pyfloat \<Rightarrow> int \<Rightarrow> pyfloat" where
  "float_mul_int x k =
     (case x of
        NaN \<Rightarrow> NaN
      | Infinity neg \<Rightarrow> Infinity neg
      | Finite m e \<Rightarrow>
          if 0 \<le> e then make_float (m < 0) (\<bar>m\<bar> * k * 2 ^ nat e) 1
          else make_float (m < 0) (\<bar>m\<bar> * k) (2 ^ nat (- e)))"

text \<open>\<open>int(x)\<close> truncates toward zero and raises on an infinity or a NaN.\<close>

definition int_of_float :: "pyfloat \<Rightarrow> exn + int" where
  "int_of_float x =
     (case x of
        NaN \<Rightarrow> Inl (ValueError ''cannot convert float NaN to integer'')
      | Infinity neg \<Rightarrow> Inl (OverflowError ''cannot convert float infinity to integer'')
      | Finite m e \<Rightarrow>
          if 0 \<le> e then Inr (m * 2 ^ nat e)
          else Inr (sgn m * (\<bar>m\<bar> div 2 ^ nat (- e))))"

text \<open>
  The conversion written twice in the service (\<open>register_payment_session\<close> and
  \<open>validate_payment\<close>): \<open>int(float(amount) * 10_000_000)\<close>.
\<close>

definition amount_stroops :: "string \<Rightarrow> exn + int" where
  "amount_stroops amount =
     (case float amount of
        Inl e \<Rightarrow> Inl e
      | Inr x \<Rightarrow> int_of_float (float_mul_int x 10000000))"

text \<open>
  The value the claim about amounts compares with: the exact product \<open>amount * 10 ^ 7\<close> for a
  plain decimal string with at most 7 fractional digits, \<open>None\<close> for any other string.
\<close>

definition exact_stroops :: "string \<Rightarrow> int option" where
  "exact_stroops amount =
     (case Option.bind (drop_underscores None (float_strip amount)) parse_float_literal of
        Some (Number neg c e) \<Rightarrow>
          if - 7 \<le> e then Some ((if neg then - c else c) * 10 ^ nat (7 + e)) else None
      | _ \<Rightarrow> None)"

section \<open>The validator service (\<open>app/services/soroban_validator.py\<close>)\<close>

text \<open>
  The Horizon server object is identified with its \<open>load_account\<close> method, a network call
  that returns an account or raises. The logger is an output: each method returns the records
  it logged, in order (the pictographs that open some messages are left out).
\<close>

type_synonym Server = "string \<Rightarrow> exn + Account"

datatype level = ERROR | WARNING | INFO

type_synonym log = "(level \<times> string) list"

record SorobanValidatorService =
  horizon_server :: Server
  contract_id :: "string option"
  backend_keypair :: "Keypair option"

text \<open>
  \<open>app.core.config.settings\<close> is read by \<open>__init__\<close> only. An attribute that is absent is
  \<open>None\<close> here; \<open>Server(horizon_url=...)\<close> and \<open>Keypair.from_secret\<close> belong to the SDK and
  are parameters.
\<close>

record Settings =
  STELLAR_HORIZON_URL :: string
  PAYMENT_VALIDATOR_CONTRACT_ID :: "string option"
  BACKEND_SECRET_KEY :: "string option"

definition init ::
  "(string \<Rightarrow> Server) \<Rightarrow> (string \<Rightarrow> exn + Keypair) \<Rightarrow> Settings \<Rightarrow> exn + SorobanValidatorService"
where
  "init server_of from_secret settings =
     (case BACKEND_SECRET_KEY settings of
        None \<Rightarrow>
          Inr \<lparr>horizon_server = server_of (STELLAR_HORIZON_URL settings),
               contract_id = PAYMENT_VALIDATOR_CONTRACT_ID settings,
               backend_keypair = None\<rparr>
      | Some secret \<Rightarrow>
          (case from_secret secret of
             Inl e \<Rightarrow> Inl e
           | Inr kp \<Rightarrow>
               Inr \<lparr>horizon_server = server_of (STELLAR_HORIZON_URL settings),
                    contract_id = PAYMENT_VALIDATOR_CONTRACT_ID settings,
                    backend_keypair = Some kp\<rparr>))"

fun str_or_none :: "string option \<Rightarrow> pyval" where
  "str_or_none None = PyNone"
| "str_or_none (Some s) = Str s"

definition register_payment_session ::
  "SorobanValidatorService \<Rightarrow> string \<Rightarrow> string \<Rightarrow> string \<Rightarrow> (exn + dict) \<times> log"
where
  "register_payment_session self session_id merchant_address amount_usdc =
     (if \<not> truthy (contract_id self) then
        (Inl (Exception ''Smart contract not deployed. Set PAYMENT_VALIDATOR_CONTRACT_ID in .env''),
         [(ERROR, ''Payment validator contract not configured'')])
      else
        (case backend_keypair self of
           None \<Rightarrow>
             (Inl (Exception ''Backend secret key required. Set BACKEND_SECRET_KEY in .env''),
              [(ERROR, ''Backend secret key not configured'')])
         | Some kp \<Rightarrow>
             (case amount_stroops amount_usdc of
                Inl e \<Rightarrow> (Inl e, [(ERROR, ''Failed to register session: '' @ str_exn e)])
              | Inr stroops \<Rightarrow>
                  (let registering =
                     (INFO, ''Registering session '' @ session_id @ '' for merchant ''
                            @ take 8 merchant_address @ ''... amount '' @ amount_usdc @ '' USDC'')
                   in case horizon_server self (public_key kp) of
                        Inl e \<Rightarrow>
                          (Inl e,
                           [registering, (ERROR, ''Failed to register session: '' @ str_exn e)])
                      | Inr source_account \<Rightarrow>
                          (Inr
                             [(''session_id'', Str session_id),
                              (''merchant'', Str merchant_address),
                              (''amount'', Str amount_usdc),
                              (''contract_address'', str_or_none (contract_id self)),
                              (''status'', Str ''registered'')],
                           [registering,
                            (INFO, ''Session '' @ session_id @ '' registered in contract'')])))))"

definition deactivate_session :: "SorobanValidatorService \<Rightarrow> string \<Rightarrow> (exn + dict) \<times> log" where
  "deactivate_session self session_id =
     (if \<not> truthy (contract_id self) \<or> backend_keypair self = None then
        (Inl (Exception ''Smart contract not properly configured''), [])
      else
        (Inr [(''session_id'', Str session_id), (''status'', Str ''deactivated'')],
         [(INFO, ''Deactivating session '' @ session_id),
          (INFO, ''Session '' @ session_id @ '' deactivated'')]))"

definition validate_payment ::
  "SorobanValidatorService \<Rightarrow> string \<Rightarrow> string \<Rightarrow> string \<Rightarrow> (exn + dict) \<times> log"
where
  "validate_payment self session_id amount_received paid_asset =
     (if \<not> truthy (contract_id self) \<or> backend_keypair self = None then
        (Inr
           [(''valid'', Bool True),
            (''validated_by_contract'', Bool False),
            (''reason'', Str ''Contract not deployed'')],
         [(WARNING, ''Smart contract not configured, skipping validation'')])
      else
        (case amount_stroops amount_received of
           Inl e \<Rightarrow>
             (Inr
                [(''valid'', Bool False),
                 (''validated_by_contract'', Bool True),
                 (''reason'', Str (str_exn e)),
                 (''error'', Str ''VALIDATION_FAILED'')],
              [(ERROR, ''Contract validation failed: '' @ str_exn e)])
         | Inr stroops \<Rightarrow>
             (Inr
                [(''valid'', Bool True),
                 (''validated_by_contract'', Bool True),
                 (''session_id'', Str session_id),
                 (''amount'', Str amount_received),
                 (''asset'', Str paid_asset),
                 (''contract_address'', str_or_none (contract_id self))],
              [(INFO, ''Validating payment: '' @ session_id @ '' - '' @ amount_received
                      @ '' '' @ paid_asset),
               (INFO, ''Payment validated by contract: '' @ session_id)])))"

text \<open>
  In \<open>get_session_status\<close> the body of the \<open>try\<close> only builds a dict of a string and three
  constants, which cannot raise, so the handler is never entered and nothing is logged.
\<close>

definition get_session_status :: "SorobanValidatorService \<Rightarrow> string \<Rightarrow> dict option" where
  "get_session_status self session_id =
     (if \<not> truthy (contract_id self) then None
      else Some
        [(''session_id'', Str session_id),
         (''is_active'', Bool True),
         (''merchant'', Str ''GXXX...''),
         (''amount'', Str ''10.00'')])"

definition get_contract_address :: "SorobanValidatorService \<Rightarrow> string option" where
  "get_contract_address self = contract_id self"

section \<open>The deployment script (\<open>contracts/payment_validator/deploy.py\<close>)\<close>

datatype GetTransactionStatus = SUCCESS | NOT_FOUND | FAILED

record GetTransactionResponse =
  status :: GetTransactionStatus
  result_meta_xdr :: string

text \<open>
  The two operations the script builds. Their first arguments are \<open>bytes\<close>: the contents of
  the WASM file, and the \<open>wasm_id\<close> under which the contract is created.
\<close>

datatype operation = UploadContractWasm string | CreateContract string string

record Transaction =
  source_account :: Account
  base_fee :: nat
  operation :: operation
  time_bound :: nat
  signatures :: "string list"

text \<open>
  \<open>TransactionBuilder(source, NETWORK_PASSPHRASE, base_fee=100_000)\<close>, one operation,
  \<open>set_timeout(300)\<close>, \<open>build()\<close>; and \<open>tx.sign(keypair)\<close>. Building keeps the operation as
  it is given; whether it can be written as XDR is checked by \<open>pack_error\<close> below, before the
  first request for the transaction.
\<close>

definition build :: "Account \<Rightarrow> operation \<Rightarrow> Transaction" where
  "build source op =
     \<lparr>source_account = source, base_fee = 100000, operation = op, time_bound = 300,
      signatures = []\<rparr>"

definition sign :: "Transaction \<Rightarrow> Keypair \<Rightarrow> Transaction" where
  "sign tx kp = tx\<lparr>signatures := signatures tx @ [public_key kp]\<rparr>"

text \<open>\<open>s.encode()\<close>: the UTF-8 bytes of a string, two bytes for a code point from 128 on.\<close>

definition encode :: "string \<Rightarrow> string" where
  "encode s =
     concat (map (\<lambda>c. if (of_char c :: nat) < 128 then [c]
                        else [char_of (192 + (of_char c :: nat) div 64),
                              char_of (128 + (of_char c :: nat) mod 64)]) s)"

text \<open>
  What the script does to the outside, in order: what it prints (line breaks and pictographs
  left out; \<open>PrintResponse\<close> is a message that ends with an SDK response object), its calls to
  the Horizon and Soroban servers with what each call gave, and its delays in seconds.
\<close>

datatype event =
    Print string
  | PrintResponse string GetTransactionResponse
  | Traceback
  | LoadAccount string "exn + Account"
  | PrepareTransaction Transaction "exn + Transaction"
  | SendTransaction Transaction "exn + string"
  | GetTransaction string "exn + GetTransactionResponse"
  | Sleep nat

fun is_load :: "event \<Rightarrow> bool" where
  "is_load (LoadAccount _ _) = True"
| "is_load _ = False"

fun is_prepare :: "event \<Rightarrow> bool" where
  "is_prepare (PrepareTransaction _ _) = True"
| "is_prepare _ = False"

fun is_send :: "event \<Rightarrow> bool" where
  "is_send (SendTransaction _ _) = True"
| "is_send _ = False"

fun is_get :: "event \<Rightarrow> bool" where
  "is_get (GetTransaction _ _) = True"
| "is_get _ = False"

definition calls :: "(event \<Rightarrow> bool) \<Rightarrow> event list \<Rightarrow> nat" where
  "calls kind tr = length (filter kind tr)"

text \<open>
  The world outside the script. The subprocess \<open>stellar keys show deployer\<close> gives its standard
  output or raises; the WASM file is absent (\<open>None\<close>) or reading it gives its bytes or raises;
  every server method answers its \<open>k\<close>-th call (counted from 0, per method) with a value or an
  exception. \<open>xdr_length_error n\<close> is the \<open>ValueError\<close> with which the SDK refuses to write \<open>n\<close>
  bytes where the XDR type has 32.
\<close>

record env =
  stellar_keys_show :: "exn + string"
  from_secret :: "string \<Rightarrow> exn + Keypair"
  wasm_file :: "(exn + string) option"
  xdr_length_error :: "nat \<Rightarrow> exn"
  load_account :: "nat \<Rightarrow> string \<Rightarrow> exn + Account"
  prepare_transaction :: "nat \<Rightarrow> Transaction \<Rightarrow> exn + Transaction"
  send_transaction :: "nat \<Rightarrow> Transaction \<Rightarrow> exn + string"
  get_transaction :: "nat \<Rightarrow> string \<Rightarrow> exn + GetTransactionResponse"

definition call_load_account ::
  "env \<Rightarrow> string \<Rightarrow> event list \<Rightarrow> (exn + Account) \<times> event list" where
  "call_load_account env pk tr =
     (let r = load_account env (calls is_load tr) pk in (r, tr @ [LoadAccount pk r]))"

text \<open>
  Before the Soroban server is asked anything about a transaction, the SDK writes the
  transaction as XDR. The \<open>wasm_id\<close> of a contract creation has the XDR type \<open>Hash\<close>,
  \<open>opaque[32]\<close>: with any other number of bytes the SDK raises and nothing is sent.
\<close>

definition pack_error :: "env \<Rightarrow> Transaction \<Rightarrow> exn option" where
  "pack_error env tx =
     (case operation tx of
        UploadContractWasm wasm \<Rightarrow> None
      | CreateContract wasm_id address \<Rightarrow>
          if length wasm_id = 32 then None else Some (xdr_length_error env (length wasm_id)))"

definition call_prepare_transaction ::
  "env \<Rightarrow> Transaction \<Rightarrow> event list \<Rightarrow> (exn + Transaction) \<times> event list" where
  "call_prepare_transaction env tx tr =
     (case pack_error env tx of
        Some e \<Rightarrow> (Inl e, tr)
      | None \<Rightarrow>
          (let r = prepare_transaction env (calls is_prepare tr) tx
           in (r, tr @ [PrepareTransaction tx r])))"

definition call_send_transaction ::
  "env \<Rightarrow> Transaction \<Rightarrow> event list \<Rightarrow> (exn + string) \<times> event list" where
  "call_send_transaction env tx tr =
     (case pack_error env tx of
        Some e \<Rightarrow> (Inl e, tr)
      | None \<Rightarrow>
          (let r = send_transaction env (calls is_send tr) tx
           in (r, tr @ [SendTransaction tx r])))"

definition call_get_transaction ::
  "env \<Rightarrow> string \<Rightarrow> event list \<Rightarrow> (exn + GetTransactionResponse) \<times> event list" where
  "call_get_transaction env hash tr =
     (let r = get_transaction env (calls is_get tr) hash in (r, tr @ [GetTransaction hash r]))"

text \<open>
  How a piece of the script ends: it returns a value, \<open>exit(c)\<close> raises \<open>SystemExit\<close> (which no
  \<open>except Exception\<close> catches), or an \<open>Exception\<close> propagates.
\<close>

datatype outcome = Return "string option" | Exit nat | Raise exn

definition WASM_PATH :: string where
  "WASM_PATH = ''target/wasm32-unknown-unknown/release/chainpe_payment_validator.wasm''"

fun str_nat :: "nat \<Rightarrow> string" where
  "str_nat n =
     (if n < 10 then [char_of (48 + n)] else str_nat (n div 10) @ [char_of (48 + n mod 10)])"

declare str_nat.simps [simp del]

definition get_deployer_keypair :: "env \<Rightarrow> event list \<Rightarrow> (outcome + Keypair) \<times> event list" where
  "get_deployer_keypair env tr =
     (let failed = (\<lambda>e.
            (Inl (Exit 1),
             tr @ [Print (''Error getting deployer keys: '' @ str_exn e),
                   Print (''Make sure you have created deployer keys with: ''
                          @ ''stellar keys generate deployer --network testnet --fund'')]))
      in case stellar_keys_show env of
           Inl e \<Rightarrow> failed e
         | Inr stdout \<Rightarrow>
             (case from_secret env (strip stdout) of
                Inl e \<Rightarrow> failed e
              | Inr kp \<Rightarrow> (Inr kp, tr)))"

text \<open>
  Lines 120--133, the loop \<open>for j in range(60)\<close> that waits for the contract deployment. The
  loop variable is not used, so the loop is a recursion on the number of iterations left. The
  status query is not guarded here: an exception leaves the loop.
\<close>

fun wait_for_contract_deployment ::
  "env \<Rightarrow> string \<Rightarrow> nat \<Rightarrow> event list \<Rightarrow> outcome \<times> event list" where
  "wait_for_contract_deployment env hash2 0 tr = (Return None, tr)"
| "wait_for_contract_deployment env hash2 (Suc n) tr =
     (case call_get_transaction env hash2 tr of
        (Inl e, tr1) \<Rightarrow> (Raise e, tr1)
      | (Inr tx_response2, tr1) \<Rightarrow>
          if status tx_response2 = SUCCESS then
            (Return (Some hash2),
             tr1 @ [Print ''Contract deployed successfully!'',
                    Print (''CONTRACT ID: '' @ hash2),
                    Print ''Add this to your .env file:'',
                    Print (''PAYMENT_VALIDATOR_CONTRACT_ID='' @ hash2)])
          else if status tx_response2 = FAILED then
            (Exit 1, tr1 @ [PrintResponse ''Deployment failed: '' tx_response2])
          else wait_for_contract_deployment env hash2 n (tr1 @ [Sleep 2]))"

text \<open>
  Lines 89--133, the branch taken when the upload transaction reports \<open>SUCCESS\<close>: submit the
  transaction that creates the contract and wait for it. The \<open>wasm_id\<close> the script passes is
  \<open>response.hash.encode()\<close>, the bytes of the text of the hash of the upload transaction: for
  a hash of 64 hexadecimal digits that is 64 bytes, \<open>call_prepare_transaction\<close> raises, and
  the rest of the branch is not reached.
\<close>

definition deploy_instance ::
  "env \<Rightarrow> Keypair \<Rightarrow> string \<Rightarrow> event list \<Rightarrow> outcome \<times> event list" where
  "deploy_instance env deployer hash tr =
     (case call_load_account env (public_key deployer)
             (tr @ [Print ''WASM uploaded successfully!'',
                    Print (''WASM Hash: '' @ hash),
                    Print ''Deploying contract instance...'']) of
        (Inl e, tr1) \<Rightarrow> (Raise e, tr1)
      | (Inr source, tr1) \<Rightarrow>
          (case call_prepare_transaction env
                  (build source (CreateContract (encode hash) (public_key deployer))) tr1 of
             (Inl e, tr2) \<Rightarrow> (Raise e, tr2)
           | (Inr prepared_tx2, tr2) \<Rightarrow>
               (case call_send_transaction env (sign prepared_tx2 deployer) tr2 of
                  (Inl e, tr3) \<Rightarrow> (Raise e, tr3)
                | (Inr hash2, tr3) \<Rightarrow>
                    wait_for_contract_deployment env hash2 60
                      (tr3 @ [Print (''Contract deployment tx: '' @ hash2)]))))"

text \<open>
  Lines 86--137, the body of the \<open>try\<close> of one attempt: \<open>None\<close> when the body ends normally
  (a status that is neither \<open>SUCCESS\<close> nor \<open>FAILED\<close>), otherwise how it was left.
\<close>

definition try_body ::
  "env \<Rightarrow> Keypair \<Rightarrow> string \<Rightarrow> event list \<Rightarrow> outcome option \<times> event list" where
  "try_body env deployer hash tr =
     (case call_get_transaction env hash tr of
        (Inl e, tr1) \<Rightarrow> (Some (Raise e), tr1)
      | (Inr tx_response, tr1) \<Rightarrow>
          if status tx_response = SUCCESS then
            (case deploy_instance env deployer hash tr1 of (out, tr2) \<Rightarrow> (Some out, tr2))
          else if status tx_response = FAILED then
            (Some (Exit 1), tr1 @ [PrintResponse ''Transaction failed: '' tx_response])
          else (None, tr1))"

text \<open>
  Lines 85--145, the loop \<open>for i in range(60)\<close> that waits for the upload transaction, again by
  the number of iterations left. \<open>except Exception: pass\<close> catches what the body raises;
  \<open>return\<close> and \<open>exit(1)\<close> leave the function.
\<close>

fun wait_for_confirmation ::
  "env \<Rightarrow> Keypair \<Rightarrow> string \<Rightarrow> nat \<Rightarrow> event list \<Rightarrow> outcome \<times> event list" where
  "wait_for_confirmation env deployer hash 0 tr = (Exit 1, tr @ [Print ''Transaction timeout''])"
| "wait_for_confirmation env deployer hash (Suc n) tr =
     (case try_body env deployer hash tr of
        (Some (Return v), tr1) \<Rightarrow> (Return v, tr1)
      | (Some (Exit c), tr1) \<Rightarrow> (Exit c, tr1)
      | (Some (Raise e), tr1) \<Rightarrow>
          wait_for_confirmation env deployer hash n (tr1 @ [Sleep 2, Print ''.''])
      | (None, tr1) \<Rightarrow>
          wait_for_confirmation env deployer hash n (tr1 @ [Sleep 2, Print ''.'']))"

definition deploy_contract :: "env \<Rightarrow> outcome \<times> event list" where
  "deploy_contract env =
     (case get_deployer_keypair env [Print ''Starting contract deployment...''] of
        (Inl out, tr1) \<Rightarrow> (out, tr1)
      | (Inr deployer, tr1) \<Rightarrow>
          (let tr2 = tr1 @ [Print (''Deployer address: '' @ public_key deployer)]
           in case wasm_file env of
                None \<Rightarrow>
                  (Exit 1,
                   tr2 @ [Print (''WASM file not found: '' @ WASM_PATH),
                          Print ''Run: cargo build --target wasm32-unknown-unknown --release''])
              | Some (Inl e) \<Rightarrow> (Raise e, tr2)
              | Some (Inr wasm_binary) \<Rightarrow>
                  (case call_load_account env (public_key deployer)
                          (tr2 @ [Print (''WASM size: '' @ str_nat (length wasm_binary) @ '' bytes''),
                                  Print ''Loading account...'']) of
                     (Inl e, tr3) \<Rightarrow> (Raise e, tr3)
                   | (Inr source, tr3) \<Rightarrow>
                       (case call_prepare_transaction env
                               (build source (UploadContractWasm wasm_binary))
                               (tr3 @ [Print ''Uploading WASM to Stellar...'']) of
                          (Inl (PrepareTransactionException m), tr4) \<Rightarrow>
                            (Exit 1, tr4 @ [Print (''Error preparing transaction: '' @ m)])
                        | (Inl e, tr4) \<Rightarrow> (Raise e, tr4)
                        | (Inr prepared_tx, tr4) \<Rightarrow>
                            (case call_send_transaction env (sign prepared_tx deployer)
                                    (tr4 @ [Print ''Submitting transaction...'']) of
                               (Inl e, tr5) \<Rightarrow> (Raise e, tr5)
                             | (Inr hash, tr5) \<Rightarrow>
                                 wait_for_confirmation env deployer hash 60
                                   (tr5 @ [Print (''Transaction submitted: '' @ hash),
                                           Print ''Waiting for confirmation...'']))))))"

text \<open>
  The \<open>__main__\<close> block: the exit status of the process and everything it did. An exception
  is printed with its traceback and the script then ends normally.
\<close>

definition main :: "env \<Rightarrow> nat \<times> event list" where
  "main env =
     (case deploy_contract env of
        (Return result, tr) \<Rightarrow>
          (case result of
             None \<Rightarrow> (0, tr)
           | Some c \<Rightarrow>
               if c \<noteq> [] then (0, tr @ [Print ''Deployment complete!'', Print (''Contract ID: '' @ c)])
               else (0, tr))
      | (Exit c, tr) \<Rightarrow> (c, tr)
      | (Raise e, tr) \<Rightarrow> (0, tr @ [Print (''Deployment failed: '' @ str_exn e), Traceback]))"

section \<open>Notions used in the statements and proofs\<close>

text \<open>A status query that reported \<open>FAILED\<close>; a trace is quiet when it holds none.\<close>

fun failed_get :: "event \<Rightarrow> bool" where
  "failed_get (GetTransaction h (Inr r)) = (status r = FAILED)"
| "failed_get _ = False"

definition quiet :: "event list \<Rightarrow> bool" where
  "quiet tr = list_all (\<lambda>e. \<not> failed_get e) tr"

text \<open>
  A run that was aborted by a \<open>FAILED\<close> status: it exits with status 1, and its trace ends with
  the first such query and the message printed for it.
\<close>

definition aborted :: "outcome \<Rightarrow> event list \<Rightarrow> bool" where
  "aborted out tr =
     (out = Exit 1 \<and>
      (\<exists>tr0 h r m. tr = tr0 @ [GetTransaction h (Inr r), PrintResponse m r]
         \<and> quiet tr0 \<and> status r = FAILED))"

text \<open>
  What a status query gave: \<open>pending\<close> is a response whose status is neither \<open>SUCCESS\<close> nor
  \<open>FAILED\<close>; \<open>not_yet\<close> is that or an exception.
\<close>

definition pending :: "exn + GetTransactionResponse \<Rightarrow> bool" where
  "pending x = (case x of Inl e \<Rightarrow> False | Inr r \<Rightarrow> status r \<noteq> SUCCESS \<and> status r \<noteq> FAILED)"

definition not_yet :: "exn + GetTransactionResponse \<Rightarrow> bool" where
  "not_yet x = (case x of Inl e \<Rightarrow> True | Inr r \<Rightarrow> status r \<noteq> SUCCESS \<and> status r \<noteq> FAILED)"

text \<open>
  The events of \<open>n\<close> fruitless attempts on the upload transaction \<open>h\<close>, the first of them
  being call number \<open>k\<close> of \<open>get_transaction\<close>: a status query, the delay of 2 seconds and the
  dot printed after it.
\<close>

fun retrying :: "env \<Rightarrow> string \<Rightarrow> nat \<Rightarrow> nat \<Rightarrow> event list" where
  "retrying env h k 0 = []"
| "retrying env h k (Suc n) =
     GetTransaction h (get_transaction env k h) # Sleep 2 # Print ''.'' # retrying env h (Suc k) n"

text \<open>
  The events of \<open>n\<close> attempts in which the upload transaction \<open>h\<close> is reported \<open>SUCCESS\<close> and the
  contract creation does not get as far as a request to the Soroban server: the status
  query, the three messages, the account loaded from Horizon, the delay and the dot. The
  first attempt makes call number \<open>kg\<close> of \<open>get_transaction\<close> and \<open>kl\<close> of \<open>load_account\<close>.
\<close>

fun redeploying :: "env \<Rightarrow> Keypair \<Rightarrow> string \<Rightarrow> nat \<Rightarrow> nat \<Rightarrow> nat \<Rightarrow> event list" where
  "redeploying env d h kg kl 0 = []"
| "redeploying env d h kg kl (Suc n) =
     [GetTransaction h (get_transaction env kg h),
      Print ''WASM uploaded successfully!'',
      Print (''WASM Hash: '' @ h),
      Print ''Deploying contract instance...'',
      LoadAccount (public_key d) (load_account env kl (public_key d)),
      Sleep 2,
      Print ''.'']
     @ redeploying env d h (Suc kg) (Suc kl) n"

definition succeeded :: "exn + GetTransactionResponse \<Rightarrow> bool" where
  "succeeded x = (case x of Inl e \<Rightarrow> False | Inr r \<Rightarrow> status r = SUCCESS)"

text \<open>
  An event of a run that has not got past the upload transaction \<open>h\<close>: no status query of
  another transaction, and no second transaction prepared or sent.
\<close>

fun upload_only :: "string \<Rightarrow> event \<Rightarrow> bool" where
  "upload_only h (GetTransaction h' x) = (h' = h)"
| "upload_only h (PrepareTransaction tx x) = False"
| "upload_only h (SendTransaction tx x) = False"
| "upload_only h e = True"

section \<open>Example inputs\<close>

definition horizon_ok :: Server where
  "horizon_ok = (\<lambda>pk. Inr \<lparr>account_id = pk, sequence = 7\<rparr>)"

definition svc_unconfigured :: SorobanValidatorService where
  "svc_unconfigured =
     \<lparr>horizon_server = horizon_ok, contract_id = None, backend_keypair = None\<rparr>"

definition svc_without_key :: SorobanValidatorService where
  "svc_without_key =
     \<lparr>horizon_server = horizon_ok, contract_id = Some ''CCONTRACT'', backend_keypair = None\<rparr>"

definition svc_configured :: SorobanValidatorService where
  "svc_configured =
     \<lparr>horizon_server = horizon_ok, contract_id = Some ''CCONTRACT'',
      backend_keypair = Some \<lparr>public_key = ''GBACKEND''\<rparr>\<rparr>"

definition settings_without_key :: Settings where
  "settings_without_key =
     \<lparr>STELLAR_HORIZON_URL = ''https://horizon-testnet.stellar.org'',
      PAYMENT_VALIDATOR_CONTRACT_ID = Some ''CCONTRACT'',
      BACKEND_SECRET_KEY = None\<rparr>"

definition keypair_example :: Keypair where
  "keypair_example = \<lparr>public_key = ''GDEPLOYER''\<rparr>"

text \<open>The hash of a transaction as the network gives it: 64 hexadecimal digits.\<close>

definition hash_example :: string where
  "hash_example = ''24613882f88820305bba170eb90d177beb6560ed088ba084adfe0c124c7c4e2f''"

text \<open>
  Networks that accept the upload under \<open>hash_example\<close> and differ in what a status query
  gives: always \<open>FAILED\<close>; always \<open>NOT_FOUND\<close>; always \<open>SUCCESS\<close>; and an exception at the first
  query, \<open>NOT_FOUND\<close> at the second and \<open>FAILED\<close> from the third on.
\<close>

definition network :: "(nat \<Rightarrow> string \<Rightarrow> exn + GetTransactionResponse) \<Rightarrow> env" where
  "network answers =
     \<lparr>stellar_keys_show = Inr ''SDEPLOYER'',
      from_secret = (\<lambda>secret. Inr keypair_example),
      wasm_file = Some (Inr ''wasm''),
      xdr_length_error = (\<lambda>n. ValueError ''wrong length''),
      load_account = (\<lambda>k pk. Inr \<lparr>account_id = pk, sequence = 7\<rparr>),
      prepare_transaction = (\<lambda>k tx. Inr tx),
      send_transaction = (\<lambda>k tx. Inr hash_example),
      get_transaction = answers\<rparr>"

definition env_upload_failed :: env where
  "env_upload_failed =
     network (\<lambda>k hash. Inr \<lparr>status = FAILED, result_meta_xdr = ''meta''\<rparr>)"

definition env_upload_pending :: env where
  "env_upload_pending =
     network (\<lambda>k hash. Inr \<lparr>status = NOT_FOUND, result_meta_xdr = ''meta''\<rparr>)"

definition env_upload_confirmed :: env where
  "env_upload_confirmed =
     network (\<lambda>k hash. Inr \<lparr>status = SUCCESS, result_meta_xdr = ''meta''\<rparr>)"

definition env_flaky :: env where
  "env_flaky =
     network (\<lambda>k hash.
       if k = 0 then Inl (Exception ''connection reset'')
       else Inr \<lparr>status = (if k = 1 then NOT_FOUND else FAILED), result_meta_xdr = ''meta''\<rparr>)"

text \<open>The trace of a run on such a network up to the first status query.\<close>

definition trace_upload_submitted :: "event list" where
  "trace_upload_submitted =
     (let account = \<lparr>account_id = ''GDEPLOYER'', sequence = 7\<rparr>;
          tx = build account (UploadContractWasm ''wasm'')
      in [Print ''Starting contract deployment...'',
          Print ''Deployer address: GDEPLOYER'',
          Print ''WASM size: 4 bytes'',
          Print ''Loading account...'',
          LoadAccount ''GDEPLOYER'' (Inr account),
          Print ''Uploading WASM to Stellar...'',
          PrepareTransaction tx (Inr tx),
          Print ''Submitting transaction...'',
          SendTransaction (sign tx keypair_example) (Inr hash_example),
          Print (''Transaction submitted: '' @ hash_example),
          Print ''Waiting for confirmation...''])"

section \<open>The amount conversion\<close>

text \<open>
  Evaluations of \<open>int(float(amount) * 10_000_000)\<close>. The double that \<open>float\<close> gives for
  \<open>0.57\<close> is \<open>0x1.23d70a3d70a3dp-1\<close>, below \<open>0.57\<close>; the product with \<open>10 ^ 7\<close> rounds to the
  double just below \<open>5700000\<close>, which \<open>int\<close> truncates. A separator \<open>0x1C\<close> before the digits
  is not whitespace for \<open>float\<close>, and the message of the error shows the argument as \<open>repr\<close>
  does: escaped, and in double quotes when it holds a single quote.
\<close>

lemma float_057: "float ''0.57'' = Inr (Finite 5134103575202365 (- 53))"
  by code_simp

lemma amount_057: "amount_stroops ''0.57'' = Inr 5699999"
  by code_simp

lemma amount_abc:
  "amount_stroops ''abc''
     = Inl (ValueError (''could not convert string to float: '' @ [CHR 0x27] @ ''abc'' @ [CHR 0x27]))"
  by code_simp

lemma amount_10_5: "amount_stroops ''10.5'' = Inr 105000000"
  by code_simp

lemma amount_separator:
  "amount_stroops (CHR 0x1C # ''1.5'')
     = Inl (ValueError (''could not convert string to float: ''
                        @ [CHR 0x27, CHR 0x5C] @ ''x1c1.5'' @ [CHR 0x27]))"
  by code_simp

lemma amount_quote:
  "amount_stroops (''a'' @ [CHR 0x27] @ ''b'')
     = Inl (ValueError (''could not convert string to float: ''
                        @ [CHR 0x22] @ ''a'' @ [CHR 0x27] @ ''b'' @ [CHR 0x22]))"
  by code_simp

text \<open>
  Claim C4 says that for a decimal string with at most 7 fractional digits the conversion
  \<open>int(float(amount) * 10_000_000)\<close> equals the exact value \<open>amount * 10 ^ 7\<close> and is monotonic.
  The code does not keep the first part: for the amount \<open>0.57\<close> it computes \<open>5699999\<close>, one
  stroop less than the exact \<open>5700000\<close>.
\<close>

theorem amount_conversion_loses_a_stroop:
  "amount_stroops ''0.57'' = Inr 5699999 \<and> exact_stroops ''0.57'' = Some 5700000"
  by code_simp

section \<open>The validator service\<close>

text \<open>
  Claim C5: whenever the contract is not configured, \<open>validate_payment\<close> returns, for every
  session id, amount and asset, a dict whose \<open>valid\<close> field is \<open>True\<close> and whose
  \<open>validated_by_contract\<close> field is \<open>False\<close>, and does not raise.
\<close>

theorem validate_payment_fail_open:
  assumes "\<not> truthy (contract_id self)"
  shows "\<exists>d lg. validate_payment self session_id amount_received paid_asset = (Inr d, lg)
           \<and> map_of d ''valid'' = Some (Bool True)
           \<and> map_of d ''validated_by_contract'' = Some (Bool False)"
  using assms by (simp add: validate_payment_def)

theorem validate_payment_fail_open_witness:
  "\<not> truthy (contract_id svc_unconfigured) \<and>
   (\<exists>d lg. validate_payment svc_unconfigured ''sess-1'' ''abc'' ''USDC'' = (Inr d, lg)
           \<and> map_of d ''valid'' = Some (Bool True)
           \<and> map_of d ''validated_by_contract'' = Some (Bool False))"
proof -
  have h: "\<not> truthy (contract_id svc_unconfigured)"
    by (simp add: svc_unconfigured_def)
  from validate_payment_fail_open[OF h, of "''sess-1''" "''abc''" "''USDC''"] h show ?thesis
    by blast
qed

text \<open>
  Claim C7: when the contract and the backend key are configured, \<open>validate_payment\<close> never
  raises. An exception of the conversion of the amount is caught and returned as a dict with
  \<open>valid\<close> \<open>False\<close>, \<open>validated_by_contract\<close> \<open>True\<close>, \<open>error\<close> \<open>VALIDATION_FAILED\<close> and the
  text of the exception as \<open>reason\<close>; without an exception the dict has \<open>valid\<close> \<open>True\<close> and
  \<open>validated_by_contract\<close> \<open>True\<close>.
\<close>

theorem validate_payment_catches:
  assumes "truthy (contract_id self)" and "backend_keypair self \<noteq> None"
  shows "\<exists>d lg. validate_payment self session_id amount_received paid_asset = (Inr d, lg)
           \<and> map_of d ''validated_by_contract'' = Some (Bool True)
           \<and> (case amount_stroops amount_received of
                 Inl e \<Rightarrow> map_of d ''valid'' = Some (Bool False)
                          \<and> map_of d ''error'' = Some (Str ''VALIDATION_FAILED'')
                          \<and> map_of d ''reason'' = Some (Str (str_exn e))
               | Inr n \<Rightarrow> map_of d ''valid'' = Some (Bool True) \<and> map_of d ''error'' = None)"
  using assms by (simp add: validate_payment_def split: sum.splits)

theorem validate_payment_catches_witness:
  "truthy (contract_id svc_configured) \<and> backend_keypair svc_configured \<noteq> None
   \<and> (\<exists>d lg. validate_payment svc_configured ''sess-1'' (CHR 0x1C # ''1.5'') ''USDC'' = (Inr d, lg)
           \<and> map_of d ''validated_by_contract'' = Some (Bool True)
           \<and> map_of d ''valid'' = Some (Bool False)
           \<and> map_of d ''error'' = Some (Str ''VALIDATION_FAILED'')
           \<and> map_of d ''reason''
               = Some (Str (''could not convert string to float: ''
                            @ [CHR 0x27, CHR 0x5C] @ ''x1c1.5'' @ [CHR 0x27])))
   \<and> (\<exists>d lg. validate_payment svc_configured ''sess-1'' (''a'' @ [CHR 0x27] @ ''b'') ''USDC''
                = (Inr d, lg)
           \<and> map_of d ''valid'' = Some (Bool False)
           \<and> map_of d ''reason''
               = Some (Str (''could not convert string to float: ''
                            @ [CHR 0x22] @ ''a'' @ [CHR 0x27] @ ''b'' @ [CHR 0x22])))
   \<and> (\<exists>d lg. validate_payment svc_configured ''sess-1'' ''10.5'' ''USDC'' = (Inr d, lg)
           \<and> map_of d ''validated_by_contract'' = Some (Bool True)
           \<and> map_of d ''valid'' = Some (Bool True))"
proof -
  have h1: "truthy (contract_id svc_configured)" and h2: "backend_keypair svc_configured \<noteq> None"
    by (simp_all add: svc_configured_def)
  note a = validate_payment_catches[OF h1 h2, of "''sess-1''" "CHR 0x1C # ''1.5''" "''USDC''",
      unfolded amount_separator sum.case str_exn.simps]
  note b = validate_payment_catches[OF h1 h2, of "''sess-1''" "''a'' @ [CHR 0x27] @ ''b''" "''USDC''",
      unfolded amount_quote sum.case str_exn.simps]
  note c = validate_payment_catches[OF h1 h2, of "''sess-1''" "''10.5''" "''USDC''",
      unfolded amount_10_5 sum.case]
  from a b c h1 h2 show ?thesis
    by blast
qed

text \<open>
  Claim C9: \<open>get_session_status\<close> returns \<open>None\<close> whenever the contract id is not configured;
  when it is configured the result is, for every session id, the dict of that session id and
  the constants \<open>is_active = True\<close>, \<open>merchant = "GXXX..."\<close>, \<open>amount = "10.00"\<close>.
\<close>

theorem get_session_status_hardcoded:
  "(\<not> truthy (contract_id self) \<longrightarrow> get_session_status self session_id = None)
   \<and> (truthy (contract_id self) \<longrightarrow>
        get_session_status self session_id =
          Some [(''session_id'', Str session_id), (''is_active'', Bool True),
                (''merchant'', Str ''GXXX...''), (''amount'', Str ''10.00'')])"
  by (simp add: get_session_status_def)

theorem get_session_status_hardcoded_witness:
  "\<not> truthy (contract_id svc_unconfigured)
   \<and> get_session_status svc_unconfigured ''sess-1'' = None
   \<and> truthy (contract_id svc_configured)
   \<and> get_session_status svc_configured ''sess-1'' =
          Some [(''session_id'', Str ''sess-1''), (''is_active'', Bool True),
                (''merchant'', Str ''GXXX...''), (''amount'', Str ''10.00'')]
   \<and> get_session_status svc_configured ''sess-2'' =
          Some [(''session_id'', Str ''sess-2''), (''is_active'', Bool True),
                (''merchant'', Str ''GXXX...''), (''amount'', Str ''10.00'')]"
proof -
  have h1: "\<not> truthy (contract_id svc_unconfigured)"
    by (simp add: svc_unconfigured_def)
  have h2: "truthy (contract_id svc_configured)"
    by (simp add: svc_configured_def)
  from get_session_status_hardcoded[of svc_unconfigured "''sess-1''"]
       get_session_status_hardcoded[of svc_configured "''sess-1''"]
       get_session_status_hardcoded[of svc_configured "''sess-2''"] h1 h2
  show ?thesis by blast
qed

text \<open>
  Claim C10: \<open>validate_payment\<close> reports \<open>validated_by_contract = True\<close> exactly when both the
  contract id and the backend keypair are present; in every other case, also when the contract
  id is configured and only the keypair is missing, it takes the fail-open branch (\<open>valid\<close>
  \<open>True\<close>, \<open>validated_by_contract\<close> \<open>False\<close>). A service built by \<open>__init__\<close> from settings
  without \<open>BACKEND_SECRET_KEY\<close> has no keypair, whatever its contract id.
\<close>

theorem validate_payment_needs_both:
  "(\<exists>d lg. validate_payment self session_id amount_received paid_asset = (Inr d, lg)
      \<and> map_of d ''validated_by_contract''
          = Some (Bool (truthy (contract_id self) \<and> backend_keypair self \<noteq> None))
      \<and> (\<not> (truthy (contract_id self) \<and> backend_keypair self \<noteq> None)
           \<longrightarrow> map_of d ''valid'' = Some (Bool True)))
   \<and> (init server_of keypair_of settings = Inr self \<longrightarrow> BACKEND_SECRET_KEY settings = None
        \<longrightarrow> backend_keypair self = None \<and> contract_id self = PAYMENT_VALIDATOR_CONTRACT_ID settings)"
  by (auto simp: validate_payment_def init_def split: sum.splits)

theorem validate_payment_needs_both_witness:
  "truthy (contract_id svc_without_key)
   \<and> init (\<lambda>url. horizon_ok) (\<lambda>secret. Inr \<lparr>public_key = ''GBACKEND''\<rparr>) settings_without_key
       = Inr svc_without_key
   \<and> BACKEND_SECRET_KEY settings_without_key = None
   \<and> backend_keypair svc_without_key = None
   \<and> (\<exists>d lg. validate_payment svc_without_key ''sess-1'' ''10.5'' ''USDC'' = (Inr d, lg)
         \<and> map_of d ''validated_by_contract'' = Some (Bool False)
         \<and> map_of d ''valid'' = Some (Bool True))"
proof -
  have h1: "truthy (contract_id svc_without_key)"
    by (simp add: svc_without_key_def)
  have h2: "init (\<lambda>url. horizon_ok) (\<lambda>secret. Inr \<lparr>public_key = ''GBACKEND''\<rparr>) settings_without_key
            = Inr svc_without_key"
    by (simp add: init_def settings_without_key_def svc_without_key_def)
  have h3: "BACKEND_SECRET_KEY settings_without_key = None"
    by (simp add: settings_without_key_def)
  from validate_payment_needs_both[of svc_without_key "''sess-1''" "''10.5''" "''USDC''"
        "\<lambda>url. horizon_ok" "\<lambda>secret. Inr \<lparr>public_key = ''GBACKEND''\<rparr>" settings_without_key]
       h1 h2 h3
  show ?thesis by auto
qed

text \<open>
  Claim C6 says that \<open>register_payment_session\<close>, when the contract id and the backend key are
  configured, returns a dict with status \<open>registered\<close> for every input. It does not: with both
  configured, the amount \<open>abc\<close> makes \<open>float\<close> raise a \<open>ValueError\<close>, which the handler logs and
  raises again.
\<close>

theorem register_raises_on_bad_amount:
  "truthy (contract_id svc_configured)
   \<and> backend_keypair svc_configured = Some \<lparr>public_key = ''GBACKEND''\<rparr>
   \<and> register_payment_session svc_configured ''sess-1'' ''GMERCHANT'' ''abc''
       = (Inl (ValueError (''could not convert string to float: ''
                           @ [CHR 0x27] @ ''abc'' @ [CHR 0x27])),
          [(ERROR, ''Failed to register session: could not convert string to float: ''
                   @ [CHR 0x27] @ ''abc'' @ [CHR 0x27])])"
  by (simp add: register_payment_session_def svc_configured_def amount_abc)

text \<open>
  Claim C6 as amended: \<open>register_payment_session\<close> raises a configuration error (an
  \<open>Exception\<close>, after one error record in the log) when the contract id or the backend key is
  not configured. When both are configured and the conversion of the amount raises, that
  exception is raised again and the log is the one record \<open>Failed to register session\<close> with
  its text; when the conversion succeeds and loading the account of the backend key from
  Horizon raises, that exception is raised again and the last record of the log is that
  failure record; when both succeed the result is a dict with status \<open>registered\<close> and the log
  holds no error.
\<close>

theorem register_payment_session_outcomes:
  "(\<not> truthy (contract_id self) \<longrightarrow>
      register_payment_session self session_id merchant_address amount_usdc
        = (Inl (Exception ''Smart contract not deployed. Set PAYMENT_VALIDATOR_CONTRACT_ID in .env''),
           [(ERROR, ''Payment validator contract not configured'')]))
   \<and> (truthy (contract_id self) \<and> backend_keypair self = None \<longrightarrow>
      register_payment_session self session_id merchant_address amount_usdc
        = (Inl (Exception ''Backend secret key required. Set BACKEND_SECRET_KEY in .env''),
           [(ERROR, ''Backend secret key not configured'')]))
   \<and> (truthy (contract_id self) \<and> backend_keypair self = Some kp \<longrightarrow>
        (case amount_stroops amount_usdc of
           Inl e \<Rightarrow>
             register_payment_session self session_id merchant_address amount_usdc
               = (Inl e, [(ERROR, ''Failed to register session: '' @ str_exn e)])
         | Inr n \<Rightarrow>
             (case horizon_server self (public_key kp) of
                Inl e \<Rightarrow>
                  fst (register_payment_session self session_id merchant_address amount_usdc) = Inl e
                  \<and> last (snd (register_payment_session self session_id merchant_address amount_usdc))
                      = (ERROR, ''Failed to register session: '' @ str_exn e)
              | Inr source \<Rightarrow>
                  (\<exists>d. fst (register_payment_session self session_id merchant_address amount_usdc) = Inr d
                       \<and> map_of d ''status'' = Some (Str ''registered''))
                  \<and> ERROR \<notin> fst ` set (snd (register_payment_session self session_id
                                                merchant_address amount_usdc)))))"
  by (auto simp: register_payment_session_def Let_def split: sum.splits option.splits)

theorem register_payment_session_outcomes_witness:
  "\<not> truthy (contract_id svc_unconfigured)
   \<and> register_payment_session svc_unconfigured ''sess-1'' ''GMERCHANT'' ''10.5''
        = (Inl (Exception ''Smart contract not deployed. Set PAYMENT_VALIDATOR_CONTRACT_ID in .env''),
           [(ERROR, ''Payment validator contract not configured'')])
   \<and> truthy (contract_id svc_configured)
   \<and> backend_keypair svc_configured = Some \<lparr>public_key = ''GBACKEND''\<rparr>
   \<and> (\<exists>d. fst (register_payment_session svc_configured ''sess-1'' ''GMERCHANT'' ''10.5'') = Inr d
           \<and> map_of d ''status'' = Some (Str ''registered''))
   \<and> register_payment_session svc_configured ''sess-1'' ''GMERCHANT'' (CHR 0x1C # ''1.5'')
        = (Inl (ValueError (''could not convert string to float: ''
                            @ [CHR 0x27, CHR 0x5C] @ ''x1c1.5'' @ [CHR 0x27])),
           [(ERROR, ''Failed to register session: could not convert string to float: ''
                    @ [CHR 0x27, CHR 0x5C] @ ''x1c1.5'' @ [CHR 0x27])])"
proof -
  have h1: "\<not> truthy (contract_id svc_unconfigured)"
    by (simp add: svc_unconfigured_def)
  have h2: "truthy (contract_id svc_configured)"
    and h3: "backend_keypair svc_configured = Some \<lparr>public_key = ''GBACKEND''\<rparr>"
    by (simp_all add: svc_configured_def)
  have h4: "horizon_server svc_configured ''GBACKEND'' = Inr \<lparr>account_id = ''GBACKEND'', sequence = 7\<rparr>"
    by (simp add: svc_configured_def horizon_ok_def)
  note a = register_payment_session_outcomes[of svc_unconfigured "''sess-1''" "''GMERCHANT''" "''10.5''"]
  note b = register_payment_session_outcomes[of svc_configured "''sess-1''" "''GMERCHANT''" "''10.5''"
      "\<lparr>public_key = ''GBACKEND''\<rparr>", unfolded amount_10_5 sum.case]
  note c = register_payment_session_outcomes[of svc_configured "''sess-1''" "''GMERCHANT''"
      "CHR 0x1C # ''1.5''" "\<lparr>public_key = ''GBACKEND''\<rparr>",
      unfolded amount_separator sum.case str_exn.simps]
  from a b c h1 h2 h3 h4 show ?thesis
    by simp
qed

section \<open>The deployment script: a \<open>FAILED\<close> status ends the run\<close>

lemma quiet_append [simp]: "quiet (xs @ ys) = (quiet xs \<and> quiet ys)"
  by (simp add: quiet_def)

lemma quiet_Nil [simp]: "quiet []"
  by (simp add: quiet_def)

lemma quiet_Cons [simp]: "quiet (e # es) = (\<not> failed_get e \<and> quiet es)"
  by (simp add: quiet_def)

lemma calls_append [simp]: "calls kind (xs @ ys) = calls kind xs + calls kind ys"
  by (simp add: calls_def)

lemma calls_Nil [simp]: "calls kind [] = 0"
  by (simp add: calls_def)

lemma calls_Cons [simp]: "calls kind (e # es) = (if kind e then Suc (calls kind es) else calls kind es)"
  by (simp add: calls_def)

lemma inner_good:
  "quiet tr \<Longrightarrow> wait_for_contract_deployment env h n tr = (out, tr') \<Longrightarrow> quiet tr' \<or> aborted out tr'"
proof (induction n arbitrary: tr)
  case 0
  then show ?case by simp
next
  case (Suc n)
  show ?case
  proof (cases "get_transaction env (calls is_get tr) h")
    case (Inl e)
    with Suc.prems show ?thesis
      by (auto simp: call_get_transaction_def Let_def)
  next
    case (Inr r)
    show ?thesis
    proof (cases "status r")
      case SUCCESS
      with Inr Suc.prems show ?thesis
        by (auto simp: call_get_transaction_def Let_def)
    next
      case NOT_FOUND
      with Inr Suc.prems have "wait_for_contract_deployment env h n (tr @ [GetTransaction h (Inr r), Sleep 2]) = (out, tr')"
        by (simp add: call_get_transaction_def Let_def)
      moreover have "quiet (tr @ [GetTransaction h (Inr r), Sleep 2])"
        using Suc.prems(1) NOT_FOUND by simp
      ultimately show ?thesis by (rule Suc.IH[rotated])
    next
      case FAILED
      with Inr Suc.prems have "out = Exit 1" "tr' = tr @ [GetTransaction h (Inr r), PrintResponse ''Deployment failed: '' r]"
        by (auto simp: call_get_transaction_def Let_def)
      with FAILED Suc.prems(1) have "aborted out tr'"
        unfolding aborted_def by blast
      then show ?thesis ..
    qed
  qed
qed

lemma deploy_instance_good:
  "quiet tr \<Longrightarrow> deploy_instance env d h tr = (out, tr') \<Longrightarrow> quiet tr' \<or> aborted out tr'"
  unfolding deploy_instance_def call_load_account_def call_prepare_transaction_def call_send_transaction_def
  by (auto simp: Let_def split: sum.splits option.splits dest!: inner_good[rotated])


lemma try_body_good:
  "quiet tr \<Longrightarrow> try_body env d h tr = (Some out, tr') \<Longrightarrow> quiet tr' \<or> aborted out tr'"
proof -
  assume q: "quiet tr" and t: "try_body env d h tr = (Some out, tr')"
  show ?thesis
  proof (cases "get_transaction env (calls is_get tr) h")
    case (Inl e)
    with q t show ?thesis
      by (auto simp: try_body_def call_get_transaction_def Let_def)
  next
    case (Inr r)
    show ?thesis
    proof (cases "status r")
      case SUCCESS
      with Inr t have "deploy_instance env d h (tr @ [GetTransaction h (Inr r)]) = (out, tr')"
        by (auto simp: try_body_def call_get_transaction_def Let_def split: prod.splits)
      moreover have "quiet (tr @ [GetTransaction h (Inr r)])"
        using q SUCCESS by simp
      ultimately show ?thesis by (rule deploy_instance_good[rotated])
    next
      case NOT_FOUND
      with Inr t show ?thesis
        by (simp add: try_body_def call_get_transaction_def Let_def)
    next
      case FAILED
      with Inr t have "out = Exit 1" "tr' = tr @ [GetTransaction h (Inr r), PrintResponse ''Transaction failed: '' r]"
        by (auto simp: try_body_def call_get_transaction_def Let_def)
      with FAILED q have "aborted out tr'"
        unfolding aborted_def by blast
      then show ?thesis ..
    qed
  qed
qed

lemma try_body_quiet:
  "quiet tr \<Longrightarrow> try_body env d h tr = (None, tr') \<Longrightarrow> quiet tr'"
  by (auto simp: try_body_def call_get_transaction_def Let_def split: sum.splits if_splits prod.splits)

lemma try_body_raise_quiet:
  "quiet tr \<Longrightarrow> try_body env d h tr = (Some (Raise e), tr') \<Longrightarrow> quiet tr'"
  by (auto simp: aborted_def dest: try_body_good)

lemma outer_good:
  "quiet tr \<Longrightarrow> wait_for_confirmation env d h n tr = (out, tr') \<Longrightarrow> quiet tr' \<or> aborted out tr'"
proof (induction n arbitrary: tr)
  case 0
  then show ?case by auto
next
  case (Suc n)
  obtain b tr1 where b: "try_body env d h tr = (b, tr1)"
    by (cases "try_body env d h tr")
  show ?case
  proof (cases b)
    case None
    with b Suc.prems have "wait_for_confirmation env d h n (tr1 @ [Sleep 2, Print ''.'']) = (out, tr')"
      by simp
    moreover have "quiet (tr1 @ [Sleep 2, Print ''.''])"
      using try_body_quiet[OF Suc.prems(1)] b None by simp
    ultimately show ?thesis by (rule Suc.IH[rotated])
  next
    case (Some o1)
    show ?thesis
    proof (cases o1)
      case (Return v)
      with Some b Suc.prems have "out = o1" "tr' = tr1" by auto
      with try_body_good[OF Suc.prems(1)] b Some show ?thesis by simp
    next
      case (Exit c)
      with Some b Suc.prems have "out = o1" "tr' = tr1" by auto
      with try_body_good[OF Suc.prems(1)] b Some show ?thesis by simp
    next
      case (Raise e)
      with Some b Suc.prems have "wait_for_confirmation env d h n (tr1 @ [Sleep 2, Print ''.'']) = (out, tr')"
        by simp
      moreover have "quiet (tr1 @ [Sleep 2, Print ''.''])"
        using try_body_raise_quiet[OF Suc.prems(1)] b Some Raise by simp
      ultimately show ?thesis by (rule Suc.IH[rotated])
    qed
  qed
qed

lemma get_deployer_keypair_quiet:
  "quiet tr \<Longrightarrow> get_deployer_keypair env tr = (r, tr') \<Longrightarrow> quiet tr'"
  by (auto simp: get_deployer_keypair_def Let_def split: sum.splits)

lemma deploy_contract_good:
  "deploy_contract env = (out, tr') \<Longrightarrow> quiet tr' \<or> aborted out tr'"
  unfolding deploy_contract_def call_load_account_def call_prepare_transaction_def call_send_transaction_def
  by (auto simp: Let_def split: sum.splits prod.splits option.splits exn.splits
      dest!: outer_good[rotated] get_deployer_keypair_quiet[rotated])


lemma quiet_nth: "quiet tr \<Longrightarrow> i < length tr \<Longrightarrow> \<not> failed_get (tr ! i)"
  by (simp add: quiet_def list_all_length)

lemma main_quiet:
  "deploy_contract env = (out, tr') \<Longrightarrow> quiet tr' \<Longrightarrow> main env = (code, tr) \<Longrightarrow> quiet tr"
  by (auto simp: main_def split: outcome.splits option.splits if_splits)

text \<open>
  Claim C1: in every run of the script, as soon as a status query reports \<open>FAILED\<close> the run is
  aborted on that attempt with exit status 1: the query is followed by the message printed
  for it and by nothing else, so no further status query and no delay is performed.
\<close>

theorem failed_status_aborts:
  assumes "main env = (code, tr)" and "i < length tr"
    and "tr ! i = GetTransaction h (Inr r)" and "status r = FAILED"
  shows "code = 1 \<and> fst (deploy_contract env) = Exit 1 \<and> length tr = i + 2
         \<and> (\<exists>m. tr ! (i + 1) = PrintResponse m r)"
proof -
  obtain out tr' where d: "deploy_contract env = (out, tr')"
    by (cases "deploy_contract env")
  have f: "failed_get (tr ! i)"
    using assms(3,4) by simp
  have "\<not> quiet tr'"
    using main_quiet[OF d _ assms(1)] quiet_nth[OF _ assms(2)] f by blast
  with deploy_contract_good[OF d] have "aborted out tr'" by simp
  then obtain tr0 h' r' m where out: "out = Exit 1"
    and tr': "tr' = tr0 @ [GetTransaction h' (Inr r'), PrintResponse m r']"
    and q: "quiet tr0"
    unfolding aborted_def by blast
  from d out assms(1) have code: "code = 1" and tr: "tr = tr'"
    by (auto simp: main_def)
  have i: "i = length tr0"
  proof (rule ccontr)
    assume ne: "i \<noteq> length tr0"
    show False
    proof (cases "i < length tr0")
      case True
      then have "tr ! i = tr0 ! i" by (simp add: tr tr' nth_append)
      with quiet_nth[OF q True] f show False by simp
    next
      case False
      with ne assms(2) have "i = Suc (length tr0)" by (simp add: tr tr')
      then have "tr ! i = PrintResponse m r'" by (simp add: tr tr' nth_append)
      with f show False by simp
    qed
  qed
  then have "tr ! i = GetTransaction h' (Inr r')" by (simp add: tr tr' nth_append)
  with assms(3) have r: "r' = r" by simp
  have "tr ! (i + 1) = PrintResponse m r" by (simp add: i tr tr' nth_append r)
  moreover have "length tr = i + 2" by (simp add: i tr tr')
  ultimately show ?thesis using code d out by auto
qed

text \<open>
  Evaluating a run on a concrete network: the loop is unfolded at a numeral, and every
  example network takes the script to its first status query in the same way.
\<close>

lemma wait_for_confirmation_numeral:
  "wait_for_confirmation env deployer hash (numeral k) tr =
     (case try_body env deployer hash tr of
        (Some (Return v), tr1) \<Rightarrow> (Return v, tr1)
      | (Some (Exit c), tr1) \<Rightarrow> (Exit c, tr1)
      | (Some (Raise e), tr1) \<Rightarrow>
          wait_for_confirmation env deployer hash (pred_numeral k) (tr1 @ [Sleep 2, Print ''.''])
      | (None, tr1) \<Rightarrow>
          wait_for_confirmation env deployer hash (pred_numeral k) (tr1 @ [Sleep 2, Print ''.'']))"
  by (simp add: numeral_eq_Suc)

lemma str_nat_4: "str_nat (Suc (Suc (Suc (Suc 0)))) = ''4''"
  by code_simp

lemma hash_example_length: "length (encode hash_example) = 64"
  by code_simp

lemma network_reaches_loop:
  "deploy_contract (network answers) =
     wait_for_confirmation (network answers) keypair_example hash_example 60 trace_upload_submitted"
  by (simp add: deploy_contract_def get_deployer_keypair_def
      call_load_account_def call_prepare_transaction_def call_send_transaction_def pack_error_def
      build_def sign_def Let_def network_def keypair_example_def
      trace_upload_submitted_def str_nat_4)

theorem failed_status_aborts_witness:
  "main env_upload_failed = (1, snd (main env_upload_failed))
   \<and> 11 < length (snd (main env_upload_failed))
   \<and> snd (main env_upload_failed) ! 11
       = GetTransaction hash_example (Inr \<lparr>status = FAILED, result_meta_xdr = ''meta''\<rparr>)
   \<and> fst (deploy_contract env_upload_failed) = Exit 1
   \<and> length (snd (main env_upload_failed)) = 11 + 2
   \<and> (\<exists>m. snd (main env_upload_failed) ! (11 + 1)
             = PrintResponse m \<lparr>status = FAILED, result_meta_xdr = ''meta''\<rparr>)"
proof -
  let ?failed = "\<lparr>status = FAILED, result_meta_xdr = ''meta''\<rparr>"
  have d: "deploy_contract env_upload_failed =
             (Exit 1, trace_upload_submitted @
                [GetTransaction hash_example (Inr ?failed),
                 PrintResponse ''Transaction failed: '' ?failed])"
    unfolding env_upload_failed_def network_reaches_loop
    by (simp add: wait_for_confirmation_numeral try_body_def call_get_transaction_def Let_def
        network_def trace_upload_submitted_def)
  have m: "main env_upload_failed =
             (1, trace_upload_submitted @
                [GetTransaction hash_example (Inr ?failed),
                 PrintResponse ''Transaction failed: '' ?failed])"
    by (simp add: main_def d)
  have h1: "main env_upload_failed = (1, snd (main env_upload_failed))"
    by (simp add: m)
  have h2: "11 < length (snd (main env_upload_failed))"
    by (simp add: m trace_upload_submitted_def Let_def)
  have h3: "snd (main env_upload_failed) ! 11 = GetTransaction hash_example (Inr ?failed)"
    by (simp add: m trace_upload_submitted_def Let_def)
  have h4: "status ?failed = FAILED"
    by simp
  from failed_status_aborts[OF h1 h2 h3 h4] h1 h2 h3 show ?thesis
    by blast
qed

section \<open>The deployment script: attempts that do not end the run\<close>

text \<open>
  Fruitless attempts unfold one by one: \<open>n\<close> attempts on the upload that raised or were
  pending leave the loop with \<open>n\<close> iterations less and the events of \<open>retrying\<close>.
\<close>

lemma calls_retrying [simp]:
  "calls is_get (retrying env h k n) = n" "calls is_load (retrying env h k n) = 0"
  "calls is_prepare (retrying env h k n) = 0" "calls is_send (retrying env h k n) = 0"
  by (induction n arbitrary: k) simp_all

lemma outer_not_yet:
  "\<forall>j<n. not_yet (get_transaction env (calls is_get tr + j) h) \<Longrightarrow>
   wait_for_confirmation env d h (n + r) tr =
   wait_for_confirmation env d h r (tr @ retrying env h (calls is_get tr) n)"
proof (induction n arbitrary: tr)
  case 0
  then show ?case by simp
next
  case (Suc n)
  let ?x = "get_transaction env (calls is_get tr) h"
  from Suc.prems have p: "not_yet ?x" by (metis add.right_neutral zero_less_Suc)
  let ?tr = "tr @ [GetTransaction h ?x, Sleep 2, Print ''.'']"
  have "\<forall>j<n. not_yet (get_transaction env (calls is_get ?tr + j) h)"
    using Suc.prems by auto
  from Suc.IH[OF this]
  have "wait_for_confirmation env d h (n + r) ?tr =
        wait_for_confirmation env d h r (?tr @ retrying env h (calls is_get ?tr) n)" .
  moreover have "wait_for_confirmation env d h (Suc n + r) tr =
        wait_for_confirmation env d h (n + r) ?tr"
    using p by (auto simp: not_yet_def try_body_def call_get_transaction_def Let_def split: sum.splits)
  ultimately show ?case by simp
qed

lemma outer_exhausted:
  "\<forall>j<n. not_yet (get_transaction env (calls is_get tr + j) h) \<Longrightarrow>
   wait_for_confirmation env d h n tr =
     (Exit 1, tr @ retrying env h (calls is_get tr) n @ [Print ''Transaction timeout''])"
  using outer_not_yet[where r = 0] by simp

lemma retrying_const:
  "\<forall>k. get_transaction env k h = x \<Longrightarrow>
   retrying env h k n = concat (replicate n [GetTransaction h x, Sleep 2, Print ''.''])"
  by (induction n arbitrary: k) simp_all

lemma pending_not_yet: "pending x \<Longrightarrow> not_yet x"
  by (simp add: pending_def not_yet_def split: sum.splits)

text \<open>
  Claim C2: if every status query of a polling run returns a status that is neither \<open>SUCCESS\<close>
  nor \<open>FAILED\<close>, the run makes exactly 60 status queries, each followed by a delay of 2
  seconds (and a dot), then prints \<open>Transaction timeout\<close> and leaves \<open>deploy_contract\<close> with
  \<open>exit(1)\<close>; the process that called it ends with status 1. The loop for the contract
  deployment is entered only after a \<open>SUCCESS\<close> status, so it takes no part in such a run.
\<close>

theorem timeout_after_60_pending_queries:
  assumes "\<forall>j<60. pending (get_transaction env (calls is_get tr + j) hash)"
  shows "wait_for_confirmation env deployer hash 60 tr
           = (Exit 1, tr @ retrying env hash (calls is_get tr) 60 @ [Print ''Transaction timeout''])
         \<and> calls is_get (retrying env hash (calls is_get tr) 60) = 60
         \<and> (deploy_contract env = wait_for_confirmation env deployer hash 60 tr \<longrightarrow>
              main env = (1, tr @ retrying env hash (calls is_get tr) 60
                               @ [Print ''Transaction timeout'']))"
proof -
  have "\<forall>j<60. not_yet (get_transaction env (calls is_get tr + j) hash)"
    using assms by (simp add: pending_not_yet)
  then have "wait_for_confirmation env deployer hash 60 tr
           = (Exit 1, tr @ retrying env hash (calls is_get tr) 60 @ [Print ''Transaction timeout''])"
    by (rule outer_exhausted)
  then show ?thesis
    by (simp add: main_def)
qed

theorem timeout_after_60_pending_queries_witness:
  "pending (get_transaction env_upload_pending 0 hash_example)
   \<and> pending (get_transaction env_upload_pending 59 hash_example)
   \<and> deploy_contract env_upload_pending
       = wait_for_confirmation env_upload_pending keypair_example hash_example 60
           trace_upload_submitted
   \<and> main env_upload_pending
       = (1, trace_upload_submitted
             @ concat (replicate 60
                 [GetTransaction hash_example
                    (Inr \<lparr>status = NOT_FOUND, result_meta_xdr = ''meta''\<rparr>),
                  Sleep 2, Print ''.''])
             @ [Print ''Transaction timeout''])"
proof -
  let ?x = "Inr \<lparr>status = NOT_FOUND, result_meta_xdr = ''meta''\<rparr> :: exn + GetTransactionResponse"
  have g: "\<forall>k. get_transaction env_upload_pending k hash_example = ?x"
    by (simp add: env_upload_pending_def network_def)
  have p: "pending ?x"
    by (simp add: pending_def)
  have h: "\<forall>j<60. pending (get_transaction env_upload_pending
                              (calls is_get trace_upload_submitted + j) hash_example)"
    by (simp add: g p)
  have r: "deploy_contract env_upload_pending
       = wait_for_confirmation env_upload_pending keypair_example hash_example 60
           trace_upload_submitted"
    unfolding env_upload_pending_def by (rule network_reaches_loop)
  from timeout_after_60_pending_queries[OF h, of keypair_example] r
  have "main env_upload_pending
       = (1, trace_upload_submitted
             @ retrying env_upload_pending hash_example (calls is_get trace_upload_submitted) 60
             @ [Print ''Transaction timeout''])"
    by blast
  then have "main env_upload_pending
       = (1, trace_upload_submitted
             @ concat (replicate 60 [GetTransaction hash_example ?x, Sleep 2, Print ''.''])
             @ [Print ''Transaction timeout''])"
    by (simp only: retrying_const[OF g])
  with r g p show ?thesis
    by simp
qed

section \<open>The deployment script: exceptions inside the retry loop\<close>

text \<open>A piece of the script only adds to the trace, and an attempt starts with its query.\<close>

lemma inner_extends:
  "wait_for_contract_deployment env h n tr = (out, tr') \<Longrightarrow> \<exists>rest. tr' = tr @ rest"
proof (induction n arbitrary: tr)
  case 0
  then show ?case by simp
next
  case (Suc n)
  show ?case
  proof (cases "get_transaction env (calls is_get tr) h")
    case (Inl e)
    with Suc.prems show ?thesis
      by (auto simp: call_get_transaction_def Let_def)
  next
    case (Inr r)
    show ?thesis
    proof (cases "status r = SUCCESS \<or> status r = FAILED")
      case True
      with Inr Suc.prems show ?thesis
        by (auto simp: call_get_transaction_def Let_def split: if_splits)
    next
      case False
      with Inr Suc.prems
      have "wait_for_contract_deployment env h n (tr @ [GetTransaction h (Inr r), Sleep 2]) = (out, tr')"
        by (simp add: call_get_transaction_def Let_def)
      from Suc.IH[OF this] show ?thesis by auto
    qed
  qed
qed

lemma deploy_instance_extends:
  "deploy_instance env d h tr = (out, tr') \<Longrightarrow> \<exists>rest. tr' = tr @ rest"
  unfolding deploy_instance_def call_load_account_def call_prepare_transaction_def
    call_send_transaction_def
  by (auto simp: Let_def split: sum.splits option.splits dest!: inner_extends)

lemma try_body_extends:
  "try_body env d h tr = (b, tr1) \<Longrightarrow>
   \<exists>rest. tr1 = tr @ GetTransaction h (get_transaction env (calls is_get tr) h) # rest"
  unfolding try_body_def call_get_transaction_def
  by (auto simp: Let_def split: sum.splits if_splits prod.splits dest!: deploy_instance_extends)

lemma outer_extends:
  "wait_for_confirmation env d h n tr = (out, tr') \<Longrightarrow> \<exists>rest. tr' = tr @ rest"
proof (induction n arbitrary: tr)
  case 0
  then show ?case by auto
next
  case (Suc n)
  obtain b tr1 where b: "try_body env d h tr = (b, tr1)"
    by (cases "try_body env d h tr")
  from try_body_extends[OF b] obtain r1 where tr1: "tr1 = tr @ r1"
    by blast
  show ?case
  proof (cases b)
    case None
    with b Suc.prems have "wait_for_confirmation env d h n (tr1 @ [Sleep 2, Print ''.'']) = (out, tr')"
      by simp
    from Suc.IH[OF this] tr1 show ?thesis by auto
  next
    case (Some o1)
    show ?thesis
    proof (cases o1)
      case (Return v)
      with Some b Suc.prems tr1 show ?thesis by auto
    next
      case (Exit c)
      with Some b Suc.prems tr1 show ?thesis by auto
    next
      case (Raise e)
      with Some b Suc.prems
      have "wait_for_confirmation env d h n (tr1 @ [Sleep 2, Print ''.'']) = (out, tr')"
        by simp
      from Suc.IH[OF this] tr1 show ?thesis by auto
    qed
  qed
qed

lemma outer_first_event:
  assumes "wait_for_confirmation env d h (Suc n) tr = (out, tr')"
  shows "\<exists>rest. tr' = tr @ GetTransaction h (get_transaction env (calls is_get tr) h) # rest"
proof -
  obtain b tr1 where b: "try_body env d h tr = (b, tr1)"
    by (cases "try_body env d h tr")
  from try_body_extends[OF b] obtain r1
    where tr1: "tr1 = tr @ GetTransaction h (get_transaction env (calls is_get tr) h) # r1"
    by blast
  show ?thesis
  proof (cases "b = None \<or> (\<exists>e. b = Some (Raise e))")
    case True
    with b assms have "wait_for_confirmation env d h n (tr1 @ [Sleep 2, Print ''.'']) = (out, tr')"
      by auto
    from outer_extends[OF this] tr1 show ?thesis by auto
  next
    case False
    then obtain o1 where "b = Some o1" "\<forall>e. o1 \<noteq> Raise e"
      by (cases b) auto
    with b assms have "tr' = tr1"
      by (cases o1) auto
    with tr1 show ?thesis by auto
  qed
qed

lemma outer_never_raises:
  "fst (wait_for_confirmation env deployer hash n tr) \<noteq> Raise e"
proof (induction n arbitrary: tr)
  case 0
  show ?case by simp
next
  case (Suc n)
  obtain b tr1 where b: "try_body env deployer hash tr = (b, tr1)"
    by (cases "try_body env deployer hash tr")
  show ?case
  proof (cases b)
    case None
    with b Suc.IH show ?thesis by simp
  next
    case (Some out)
    with b Suc.IH show ?thesis by (cases out) simp_all
  qed
qed

text \<open>
  Claim C8: an exception raised by a status query inside the retry loop is swallowed. An
  attempt whose status query raises ends with that exception and with nothing but the query
  in the trace, and an attempt that ends with an exception is treated like one that found a
  pending status: the run never ends with an exception; the attempt is followed in the
  trace by the delay of 2 seconds and the dot; then, if attempts are left, by the next
  status query of the same transaction, and else by the timeout message and \<open>exit(1)\<close>; and
  what follows is the loop with the attempts that are left.
\<close>

theorem query_exception_swallowed:
  assumes "try_body env deployer hash tr = (b, tr1)"
    and "get_transaction env (calls is_get tr) hash = Inl e \<or> b = Some (Raise e) \<or> b = None"
    and "wait_for_confirmation env deployer hash (Suc n) tr = (out, tr')"
  shows "(get_transaction env (calls is_get tr) hash = Inl e \<longrightarrow>
            b = Some (Raise e) \<and> tr1 = tr @ [GetTransaction hash (Inl e)])
         \<and> (\<forall>e''. out \<noteq> Raise e'')
         \<and> (out, tr') = wait_for_confirmation env deployer hash n (tr1 @ [Sleep 2, Print ''.''])
         \<and> (\<exists>rest. tr' = tr1 @ [Sleep 2, Print ''.''] @ rest \<and>
               (case n of
                  0 \<Rightarrow> out = Exit 1 \<and> rest = [Print ''Transaction timeout'']
                | Suc m \<Rightarrow>
                    (\<exists>rest'. rest = GetTransaction hash
                                      (get_transaction env (calls is_get tr1) hash) # rest')))"
proof -
  have q: "get_transaction env (calls is_get tr) hash = Inl e \<longrightarrow>
            b = Some (Raise e) \<and> tr1 = tr @ [GetTransaction hash (Inl e)]"
    using assms(1) by (auto simp: try_body_def call_get_transaction_def Let_def)
  with assms(2) have b: "b = Some (Raise e) \<or> b = None"
    by blast
  have nr: "\<forall>e''. out \<noteq> Raise e''"
    using outer_never_raises[of env deployer hash "Suc n" tr] assms(3) by auto
  have step: "wait_for_confirmation env deployer hash n (tr1 @ [Sleep 2, Print ''.'']) = (out, tr')"
    using assms(1,3) b by auto
  have tail: "\<exists>rest. tr' = tr1 @ [Sleep 2, Print ''.''] @ rest \<and>
               (case n of
                  0 \<Rightarrow> out = Exit 1 \<and> rest = [Print ''Transaction timeout'']
                | Suc m \<Rightarrow>
                    (\<exists>rest'. rest = GetTransaction hash
                                      (get_transaction env (calls is_get tr1) hash) # rest'))"
  proof (cases n)
    case 0
    with step show ?thesis by auto
  next
    case (Suc m)
    from outer_first_event[OF step[unfolded Suc]] Suc show ?thesis
      by auto
  qed
  from q nr step tail show ?thesis
    by simp
qed

theorem query_exception_swallowed_witness:
  "get_transaction env_flaky (calls is_get []) hash_example = Inl (Exception ''connection reset'')
   \<and> try_body env_flaky keypair_example hash_example []
     = (Some (Raise (Exception ''connection reset'')),
        [GetTransaction hash_example (Inl (Exception ''connection reset''))])
   \<and> wait_for_confirmation env_flaky keypair_example hash_example (Suc 59) []
     = (Exit 1,
        [GetTransaction hash_example (Inl (Exception ''connection reset'')), Sleep 2, Print ''.'',
         GetTransaction hash_example (Inr \<lparr>status = NOT_FOUND, result_meta_xdr = ''meta''\<rparr>),
         Sleep 2, Print ''.'',
         GetTransaction hash_example (Inr \<lparr>status = FAILED, result_meta_xdr = ''meta''\<rparr>),
         PrintResponse ''Transaction failed: '' \<lparr>status = FAILED, result_meta_xdr = ''meta''\<rparr>])
   \<and> wait_for_confirmation env_flaky keypair_example hash_example (Suc 59) []
     = wait_for_confirmation env_flaky keypair_example hash_example 59
         ([GetTransaction hash_example (Inl (Exception ''connection reset''))]
          @ [Sleep 2, Print ''.''])"
proof -
  let ?e = "Exception ''connection reset''"
  let ?out = "Exit 1"
  let ?tr' = "[GetTransaction hash_example (Inl ?e), Sleep 2, Print ''.'',
         GetTransaction hash_example (Inr \<lparr>status = NOT_FOUND, result_meta_xdr = ''meta''\<rparr>),
         Sleep 2, Print ''.'',
         GetTransaction hash_example (Inr \<lparr>status = FAILED, result_meta_xdr = ''meta''\<rparr>),
         PrintResponse ''Transaction failed: '' \<lparr>status = FAILED, result_meta_xdr = ''meta''\<rparr>]"
  have h1: "try_body env_flaky keypair_example hash_example []
              = (Some (Raise ?e), [GetTransaction hash_example (Inl ?e)])"
    by (simp add: try_body_def call_get_transaction_def env_flaky_def network_def Let_def)
  have h2: "get_transaction env_flaky (calls is_get []) hash_example = Inl ?e
            \<or> Some (Raise ?e) = Some (Raise ?e) \<or> Some (Raise ?e) = None"
    by simp
  have h3: "wait_for_confirmation env_flaky keypair_example hash_example (Suc 59) [] = (?out, ?tr')"
    by (simp add: wait_for_confirmation_numeral try_body_def call_get_transaction_def
        env_flaky_def network_def Let_def)
  from query_exception_swallowed[OF h1 h2 h3]
  have "(?out, ?tr') = wait_for_confirmation env_flaky keypair_example hash_example 59
         ([GetTransaction hash_example (Inl ?e)] @ [Sleep 2, Print ''.''])"
    by blast
  with h3 have h4: "wait_for_confirmation env_flaky keypair_example hash_example (Suc 59) []
     = wait_for_confirmation env_flaky keypair_example hash_example 59
         ([GetTransaction hash_example (Inl ?e)] @ [Sleep 2, Print ''.''])"
    by (rule trans)
  have h0: "get_transaction env_flaky (calls is_get []) hash_example = Inl ?e"
    by (simp add: env_flaky_def network_def)
  from h0 h1 h3 h4 show ?thesis
    by (intro conjI)
qed

section \<open>The deployment script: a \<open>SUCCESS\<close> status\<close>

text \<open>
  When the text of the hash of the upload does not encode to 32 bytes, the branch for
  \<open>SUCCESS\<close> ends with an exception after the account was loaded: either loading it raised, or
  the transaction that creates the contract cannot be written. The handler of the loop
  discards the exception, so the loop polls the same transaction again: the run can only
  end with \<open>exit(1)\<close> (\<open>bad_hash_never_returns\<close>), and the loop for the contract deployment
  is never entered (\<open>bad_hash_polls_upload_only\<close>).
\<close>

lemma deploy_instance_bad_hash:
  assumes "length (encode h) \<noteq> 32"
  shows "\<exists>e. deploy_instance env d h tr =
     (Raise e,
      tr @ [Print ''WASM uploaded successfully!'',
            Print (''WASM Hash: '' @ h),
            Print ''Deploying contract instance...'',
            LoadAccount (public_key d) (load_account env (calls is_load tr) (public_key d))])"
  using assms
  by (simp add: deploy_instance_def call_load_account_def call_prepare_transaction_def
      pack_error_def build_def Let_def split: sum.splits)

lemma outer_redeploy:
  assumes "length (encode h) \<noteq> 32"
  shows "\<forall>j<n. succeeded (get_transaction env (calls is_get tr + j) h) \<Longrightarrow>
   wait_for_confirmation env d h (n + r) tr =
   wait_for_confirmation env d h r
     (tr @ redeploying env d h (calls is_get tr) (calls is_load tr) n)"
proof (induction n arbitrary: tr)
  case 0
  then show ?case by simp
next
  case (Suc n)
  let ?x = "get_transaction env (calls is_get tr) h"
  from Suc.prems have p: "succeeded ?x" by (metis add.right_neutral zero_less_Suc)
  then obtain resp where x: "?x = Inr resp" and st: "status resp = SUCCESS"
    by (auto simp: succeeded_def split: sum.splits)
  let ?tr1 = "tr @ [GetTransaction h ?x]"
  let ?tr2 = "?tr1 @ [Print ''WASM uploaded successfully!'',
            Print (''WASM Hash: '' @ h),
            Print ''Deploying contract instance...'',
            LoadAccount (public_key d) (load_account env (calls is_load tr) (public_key d))]"
  let ?tr3 = "?tr2 @ [Sleep 2, Print ''.'']"
  from deploy_instance_bad_hash[OF assms, of env d ?tr1]
  obtain e where di: "deploy_instance env d h ?tr1 = (Raise e, ?tr2)"
    by auto
  have one: "wait_for_confirmation env d h (Suc n + r) tr = wait_for_confirmation env d h (n + r) ?tr3"
    using st di by (simp add: try_body_def call_get_transaction_def Let_def x)
  have "\<forall>j<n. succeeded (get_transaction env (calls is_get ?tr3 + j) h)"
    using Suc.prems by auto
  from Suc.IH[OF this]
  have "wait_for_confirmation env d h (n + r) ?tr3 =
        wait_for_confirmation env d h r
          (?tr3 @ redeploying env d h (calls is_get ?tr3) (calls is_load ?tr3) n)" .
  with one show ?case by simp
qed

lemma redeploying_const:
  "\<forall>k. get_transaction env k h = x \<Longrightarrow> \<forall>k. load_account env k (public_key d) = y \<Longrightarrow>
   redeploying env d h kg kl n =
     concat (replicate n
       [GetTransaction h x,
        Print ''WASM uploaded successfully!'',
        Print (''WASM Hash: '' @ h),
        Print ''Deploying contract instance...'',
        LoadAccount (public_key d) y,
        Sleep 2,
        Print ''.''])"
  by (induction n arbitrary: kg kl) simp_all

lemma bad_hash_never_returns:
  assumes "length (encode h) \<noteq> 32"
  shows "fst (wait_for_confirmation env d h n tr) = Exit 1"
proof (induction n arbitrary: tr)
  case 0
  show ?case by simp
next
  case (Suc n)
  show ?case
  proof (cases "get_transaction env (calls is_get tr) h")
    case (Inl e)
    then show ?thesis
      by (simp add: try_body_def call_get_transaction_def Let_def Suc.IH)
  next
    case (Inr resp)
    show ?thesis
    proof (cases "status resp")
      case SUCCESS
      from deploy_instance_bad_hash[OF assms, of env d "tr @ [GetTransaction h (Inr resp)]"]
      obtain e tr2 where "deploy_instance env d h (tr @ [GetTransaction h (Inr resp)]) = (Raise e, tr2)"
        by blast
      with Inr SUCCESS show ?thesis
        by (simp add: try_body_def call_get_transaction_def Let_def Suc.IH)
    next
      case NOT_FOUND
      with Inr show ?thesis
        by (simp add: try_body_def call_get_transaction_def Let_def Suc.IH)
    next
      case FAILED
      with Inr show ?thesis
        by (simp add: try_body_def call_get_transaction_def Let_def)
    qed
  qed
qed

lemma bad_hash_polls_upload_only:
  assumes "length (encode h) \<noteq> 32"
  shows "wait_for_confirmation env d h n tr = (out, tr') \<Longrightarrow>
         \<exists>rest. tr' = tr @ rest \<and> list_all (upload_only h) rest"
proof (induction n arbitrary: tr)
  case 0
  then show ?case by auto
next
  case (Suc n)
  let ?x = "get_transaction env (calls is_get tr) h"
  let ?tr1 = "tr @ [GetTransaction h ?x]"
  have cont: "\<exists>rest. tr' = tr @ rest \<and> list_all (upload_only h) rest"
    if "wait_for_confirmation env d h n (tr @ mid @ [Sleep 2, Print ''.'']) = (out, tr')"
      and "list_all (upload_only h) mid" for mid
  proof -
    from Suc.IH[OF that(1)] obtain rest
      where "tr' = (tr @ mid @ [Sleep 2, Print ''.'']) @ rest" "list_all (upload_only h) rest"
      by blast
    with that(2) have "tr' = tr @ (mid @ [Sleep 2, Print ''.''] @ rest)"
      "list_all (upload_only h) (mid @ [Sleep 2, Print ''.''] @ rest)"
      by simp_all
    then show ?thesis by blast
  qed
  show ?case
  proof (cases ?x)
    case (Inl e)
    with Suc.prems
    have "wait_for_confirmation env d h n (tr @ [GetTransaction h ?x] @ [Sleep 2, Print ''.''])
          = (out, tr')"
      by (simp add: try_body_def call_get_transaction_def Let_def)
    then show ?thesis by (rule cont) simp
  next
    case (Inr resp)
    show ?thesis
    proof (cases "status resp")
      case SUCCESS
      let ?mid = "[GetTransaction h ?x,
            Print ''WASM uploaded successfully!'',
            Print (''WASM Hash: '' @ h),
            Print ''Deploying contract instance...'',
            LoadAccount (public_key d) (load_account env (calls is_load ?tr1) (public_key d))]"
      from deploy_instance_bad_hash[OF assms, of env d ?tr1]
      obtain e where "deploy_instance env d h ?tr1 = (Raise e, tr @ ?mid)"
        by auto
      with Inr SUCCESS Suc.prems
      have "wait_for_confirmation env d h n (tr @ ?mid @ [Sleep 2, Print ''.'']) = (out, tr')"
        by (simp add: try_body_def call_get_transaction_def Let_def)
      then show ?thesis by (rule cont) simp
    next
      case NOT_FOUND
      with Inr Suc.prems
      have "wait_for_confirmation env d h n (tr @ [GetTransaction h ?x] @ [Sleep 2, Print ''.''])
            = (out, tr')"
        by (simp add: try_body_def call_get_transaction_def Let_def)
      then show ?thesis by (rule cont) simp
    next
      case FAILED
      with Inr Suc.prems
      have "tr' = tr @ [GetTransaction h ?x, PrintResponse ''Transaction failed: '' resp]"
        by (auto simp: try_body_def call_get_transaction_def Let_def)
      then show ?thesis by auto
    qed
  qed
qed

text \<open>
  Claim C3 says that when a status query reports \<open>SUCCESS\<close> and no earlier one was terminal,
  the poller stops polling that transaction and returns success with the payload. The code
  means to (the nested loop returns the hash of the contract deployment) but does not get
  there: on a network that reports the upload \<open>SUCCESS\<close> at every status query, the first
  query included, the script polls the upload 60 times, loads the account each time, never
  submits the contract creation, and ends with \<open>Transaction timeout\<close> and exit status 1.
\<close>

theorem success_never_returned:
  "main env_upload_confirmed =
     (1, trace_upload_submitted
         @ concat (replicate 60
             [GetTransaction hash_example (Inr \<lparr>status = SUCCESS, result_meta_xdr = ''meta''\<rparr>),
              Print ''WASM uploaded successfully!'',
              Print (''WASM Hash: '' @ hash_example),
              Print ''Deploying contract instance...'',
              LoadAccount ''GDEPLOYER'' (Inr \<lparr>account_id = ''GDEPLOYER'', sequence = 7\<rparr>),
              Sleep 2,
              Print ''.''])
         @ [Print ''Transaction timeout''])"
proof -
  let ?env = env_upload_confirmed
  let ?x = "Inr \<lparr>status = SUCCESS, result_meta_xdr = ''meta''\<rparr> :: exn + GetTransactionResponse"
  let ?y = "Inr \<lparr>account_id = ''GDEPLOYER'', sequence = 7\<rparr> :: exn + Account"
  have bad: "length (encode hash_example) \<noteq> 32"
    by (simp add: hash_example_length)
  have g: "\<forall>k. get_transaction ?env k hash_example = ?x"
    by (simp add: env_upload_confirmed_def network_def)
  have l: "\<forall>k. load_account ?env k (public_key keypair_example) = ?y"
    by (simp add: env_upload_confirmed_def network_def keypair_example_def)
  have "\<forall>j<60. succeeded (get_transaction ?env (calls is_get trace_upload_submitted + j) hash_example)"
    by (simp add: g succeeded_def)
  from outer_redeploy[OF bad this, of keypair_example 0]
  have "wait_for_confirmation ?env keypair_example hash_example 60 trace_upload_submitted =
        (Exit 1,
         trace_upload_submitted
         @ redeploying ?env keypair_example hash_example (calls is_get trace_upload_submitted)
             (calls is_load trace_upload_submitted) 60
         @ [Print ''Transaction timeout''])"
    by simp
  then have "deploy_contract ?env =
        (Exit 1,
         trace_upload_submitted
         @ concat (replicate 60
             [GetTransaction hash_example ?x,
              Print ''WASM uploaded successfully!'',
              Print (''WASM Hash: '' @ hash_example),
              Print ''Deploying contract instance...'',
              LoadAccount (public_key keypair_example) ?y,
              Sleep 2,
              Print ''.''])
         @ [Print ''Transaction timeout''])"
    unfolding env_upload_confirmed_def network_reaches_loop
    by (simp only: redeploying_const[OF g l, unfolded env_upload_confirmed_def])
  then show ?thesis
    by (simp add: main_def keypair_example_def)
qed

end
